theory Spec2Isabelle
  imports Main
begin

section \<open>The configuration panel of ConfigurationManagement.tsx\<close>

text \<open>
  The page component keeps nine \<open>useState\<close> cells, three asynchronous operations
  (\<open>fetchConfigNames\<close>, \<open>fetchConfigContent\<close>, \<open>handleSaveConfig\<close>), a few synchronous
  handlers and two \<open>useEffect\<close> rules. The cells become one record, every handler
  becomes a function from state to state, and the calls made through \<open>apiClient\<close>
  are recorded in a trace kept beside the cells. A promise returned by \<open>apiClient\<close>
  either resolves with a value or rejects; the outcome is an argument of the
  continuation that runs after the \<open>await\<close>.

  Strings are \<open>char list\<close>. The category keys, paths and JSON punctuation are ASCII, so
  one \<open>char\<close> is one UTF-16 code unit there; the user-facing message literals and tab
  labels are kept as the UTF-8 bytes of the source text.
\<close>

subsection \<open>JSON values and the platform's \<open>JSON.stringify\<close>\<close>

text \<open>
  A Number of the runtime. \<open>Number::toString\<close> (ECMA-262, 6.1.6.1.20) reads a finite
  number \<open>x\<close> only through its sign and the integers \<open>s\<close> and \<open>n\<close> of its step 5: the
  decimal digits \<open>s\<close> of the shortest decimal numeral that denotes \<open>x\<close>, and the position
  \<open>n\<close> of the decimal point, so that \<open>x\<close> is \<open>s\<close> times ten to the power \<open>n - k\<close> for the
  \<open>k\<close> digits of \<open>s\<close>. \<open>Finite neg s n\<close> is the number with that sign, those digits and
  that position; \<open>s = 0\<close> is zero. The number 1 is \<open>Finite False 1 1\<close>, one half is
  \<open>Finite False 5 0\<close>, ten to the power 21 is \<open>Finite False 1 22\<close>. Every finite Number
  is one of these values, so what holds for all of them holds for all Numbers.
\<close>

datatype number = Finite bool nat int | Infinity bool | NaN

text \<open>
  A value as the runtime holds it after parsing. The members of an object are listed
  in property enumeration order. A string is held as the bytes of its UTF-8 form, which
  the serializer copies from \<open>0x20\<close> on, but for the quote and the backslash.
\<close>

datatype json =
    JNull
  | JBool bool
  | JNum number
  | JStr string
  | JArr "json list"
  | JObj "(string \<times> json) list"

definition hexDigit :: "nat \<Rightarrow> char" where
  "hexDigit n = ''0123456789abcdef'' ! (n mod 16)"

fun digits :: "nat \<Rightarrow> string" where
  "digits n =
     (if n < 10 then [''0123456789'' ! n]
      else digits (n div 10) @ [''0123456789'' ! (n mod 10)])"

text \<open>
  The digits of \<open>s\<close> with \<open>k\<close> as small as possible: a numeral that ends in zeros
  denotes the same number without them, \<open>n\<close> unchanged.
\<close>

definition significand :: "nat \<Rightarrow> string" where
  "significand s = rev (dropWhile (\<lambda>c. c = CHR ''0'') (rev (digits s)))"

text \<open>Steps 6 to 10 of \<open>Number::toString\<close> for radix 10, on the digits and \<open>n\<close>.\<close>

definition formatDecimal :: "string \<Rightarrow> int \<Rightarrow> string" where
  "formatDecimal ds n =
     (let k = int (length ds) in
      if - 5 \<le> n \<and> n \<le> 21 then
        (if n \<ge> k then ds @ replicate (nat (n - k)) CHR ''0''
         else if n > 0 then take (nat n) ds @ ''.'' @ drop (nat n) ds
         else ''0.'' @ replicate (nat (- n)) CHR ''0'' @ ds)
      else
        (let e = n - 1;
             exponentSign = (if e < 0 then CHR ''-'' else CHR ''+'');
             exponent = digits (nat (abs e))
         in if k = 1 then ds @ ''e'' @ [exponentSign] @ exponent
            else take 1 ds @ ''.'' @ drop 1 ds @ ''e'' @ [exponentSign] @ exponent))"

fun Number_toString :: "number \<Rightarrow> string" where
  "Number_toString NaN = ''NaN''"
| "Number_toString (Infinity neg) = (if neg then ''-Infinity'' else ''Infinity'')"
| "Number_toString (Finite neg s n) =
     (if s = 0 then ''0''
      else (if neg then ''-'' else []) @ formatDecimal (significand s) n)"

text \<open>The escapes of \<open>QuoteJSONString\<close> (ECMA-262, 25.5.2.3).\<close>

definition quoteChar :: "char \<Rightarrow> string" where
  "quoteChar c =
     (if c = CHR 0x08 then [CHR 0x5C, CHR ''b'']
      else if c = CHR 0x09 then [CHR 0x5C, CHR ''t'']
      else if c = CHR 0x0A then [CHR 0x5C, CHR ''n'']
      else if c = CHR 0x0C then [CHR 0x5C, CHR ''f'']
      else if c = CHR 0x0D then [CHR 0x5C, CHR ''r'']
      else if c = CHR 0x22 then [CHR 0x5C, CHR 0x22]
      else if c = CHR 0x5C then [CHR 0x5C, CHR 0x5C]
      else if (of_char c :: nat) < 32
        then [CHR 0x5C, CHR ''u'', CHR ''0'', CHR ''0'',
              hexDigit (of_char c div 16), hexDigit (of_char c mod 16)]
      else [c])"

definition QuoteJSONString :: "string \<Rightarrow> string" where
  "QuoteJSONString s = CHR 0x22 # concat (map quoteChar s) @ [CHR 0x22]"

fun join :: "string \<Rightarrow> string list \<Rightarrow> string" where
  "join sep [] = []"
| "join sep [x] = x"
| "join sep (x # y # ys) = x @ sep @ join sep (y # ys)"

text \<open>
  \<open>SerializeJSONProperty\<close> with \<open>SerializeJSONArray\<close> and \<open>SerializeJSONObject\<close>
  inlined: \<open>gap\<close> is the indentation unit, \<open>indent\<close> the current indentation. A Number
  that is not finite is written \<open>null\<close>.
\<close>

fun SerializeJSONProperty :: "string \<Rightarrow> string \<Rightarrow> json \<Rightarrow> string" where
  "SerializeJSONProperty gap indent JNull = ''null''"
| "SerializeJSONProperty gap indent (JBool b) = (if b then ''true'' else ''false'')"
| "SerializeJSONProperty gap indent (JNum (Finite neg s n)) = Number_toString (Finite neg s n)"
| "SerializeJSONProperty gap indent (JNum (Infinity neg)) = ''null''"
| "SerializeJSONProperty gap indent (JNum NaN) = ''null''"
| "SerializeJSONProperty gap indent (JStr s) = QuoteJSONString s"
| "SerializeJSONProperty gap indent (JArr xs) =
     (let stepback = indent; indent = indent @ gap;
          partial = map (SerializeJSONProperty gap indent) xs
      in if partial = [] then ''[]''
         else if gap = [] then ''['' @ join '','' partial @ '']''
         else ''['' @ [CHR 0x0A] @ indent
              @ join ('','' @ [CHR 0x0A] @ indent) partial
              @ [CHR 0x0A] @ stepback @ '']'')"
| "SerializeJSONProperty gap indent (JObj kvs) =
     (let stepback = indent; indent = indent @ gap;
          partial = map (\<lambda>kv. QuoteJSONString (fst kv) @ '':''
                              @ (if gap = [] then [] else '' '')
                              @ SerializeJSONProperty gap indent (snd kv)) kvs
      in if partial = [] then ''{}''
         else if gap = [] then ''{'' @ join '','' partial @ ''}''
         else ''{'' @ [CHR 0x0A] @ indent
              @ join ('','' @ [CHR 0x0A] @ indent) partial
              @ [CHR 0x0A] @ stepback @ ''}'')"

text \<open>\<open>JSON.stringify(value, null, space)\<close> for a numeric \<open>space\<close>: at most ten blanks.\<close>

definition JSON_stringify :: "json \<Rightarrow> nat \<Rightarrow> string" where
  "JSON_stringify v space = SerializeJSONProperty (replicate (min 10 space) CHR '' '') [] v"

subsection \<open>Pretty printing with two blanks, line by line\<close>







subsection \<open>\<open>String.prototype.slice\<close>\<close>

text \<open>
  \<open>s.slice(start, end)\<close>: a negative bound counts from the end and is clamped at 0, a
  positive one is clamped at the length.
\<close>

definition String_slice :: "int \<Rightarrow> int \<Rightarrow> string \<Rightarrow> string" where
  "String_slice start end s =
     (let len = int (length s);
          from = (if start < 0 then max (len + start) 0 else min start len);
          to = (if end < 0 then max (len + end) 0 else min end len)
      in take (nat (max (to - from) 0)) (drop (nat from) s))"

text \<open>
  The specification's \<open>singular(category)\<close>, in its own words: the category string with
  its final character removed.
\<close>

definition singular :: "string \<Rightarrow> string" where
  "singular category = butlast category"

subsection \<open>View state\<close>

datatype severity = Success | Error

datatype request = GET string | POST string json

record view_state =
  tabValue :: nat
  configNames :: "string list"
  selectedConfigName :: "string option"
  configContent :: string
  loading :: bool
  snackbarOpen :: bool
  snackbarMessage :: string
  snackbarSeverity :: severity
  isEditing :: bool
  requests :: "request list"

text \<open>
  \<open>requests\<close> is not a cell of the component: it is the trace of the calls made to
  \<open>apiClient\<close>, oldest first.
\<close>

definition initial_state :: view_state where
  "initial_state =
     \<lparr> tabValue = 0, configNames = [], selectedConfigName = None, configContent = [],
       loading = False, snackbarOpen = False, snackbarMessage = [],
       snackbarSeverity = Success, isEditing = False, requests = [] \<rparr>"

record resource_type =
  key :: string
  label :: string

definition resourceTypes :: "resource_type list" where
  "resourceTypes =
     [ \<lparr> key = ''ClassPlans'',
         label = [CHR 0xE8, CHR 0xAF, CHR 0xBE, CHR 0xE8, CHR 0xA1, CHR 0xA8] \<rparr>,
       \<lparr> key = ''TimeLayouts'',
         label = [CHR 0xE6, CHR 0x97, CHR 0xB6, CHR 0xE9, CHR 0x97, CHR 0xB4,
                  CHR 0xE5, CHR 0xB8, CHR 0x83, CHR 0xE5, CHR 0xB1, CHR 0x80] \<rparr>,
       \<lparr> key = ''SubjectsSource'',
         label = [CHR 0xE7, CHR 0xA7, CHR 0x91, CHR 0xE7, CHR 0x9B, CHR 0xAE] \<rparr>,
       \<lparr> key = ''DefaultSettingsSource'',
         label = [CHR 0xE9, CHR 0xBB, CHR 0x98, CHR 0xE8, CHR 0xAE, CHR 0xA4,
                  CHR 0xE8, CHR 0xAE, CHR 0xBE, CHR 0xE7, CHR 0xBD, CHR 0xAE] \<rparr>,
       \<lparr> key = ''PolicySource'',
         label = [CHR 0xE7, CHR 0xAD, CHR 0x96, CHR 0xE7, CHR 0x95, CHR 0xA5] \<rparr> ]"

text \<open>
  Line 32, \<open>resourceTypes[tabValue].key\<close>, is evaluated at every render. For an index
  outside the table the read of \<open>.key\<close> throws and no handler is created, so the
  handlers below exist only for \<open>tabValue < 5\<close>; the tab bar supplies no other index.
\<close>

definition currentResourceType :: "view_state \<Rightarrow> string" where
  "currentResourceType st = key (resourceTypes ! tabValue st)"

text \<open>The four message literals, as UTF-8 bytes.\<close>

definition msgNamesFailed :: string where
  "msgNamesFailed =
     [CHR 0xE8, CHR 0x8E, CHR 0xB7, CHR 0xE5, CHR 0x8F, CHR 0x96, CHR 0xE9, CHR 0x85,
      CHR 0x8D, CHR 0xE7, CHR 0xBD, CHR 0xAE, CHR 0xE6, CHR 0x96, CHR 0x87, CHR 0xE4,
      CHR 0xBB, CHR 0xB6, CHR 0xE5, CHR 0x88, CHR 0x97, CHR 0xE8, CHR 0xA1, CHR 0xA8,
      CHR 0xE5, CHR 0xA4, CHR 0xB1, CHR 0xE8, CHR 0xB4, CHR 0xA5]"

definition msgContentFailed :: string where
  "msgContentFailed =
     [CHR 0xE8, CHR 0x8E, CHR 0xB7, CHR 0xE5, CHR 0x8F, CHR 0x96, CHR 0xE9, CHR 0x85,
      CHR 0x8D, CHR 0xE7, CHR 0xBD, CHR 0xAE, CHR 0xE6, CHR 0x96, CHR 0x87, CHR 0xE4,
      CHR 0xBB, CHR 0xB6, CHR 0xE5, CHR 0x86, CHR 0x85, CHR 0xE5, CHR 0xAE, CHR 0xB9,
      CHR 0xE5, CHR 0xA4, CHR 0xB1, CHR 0xE8, CHR 0xB4, CHR 0xA5]"

definition msgSaveSucceeded :: string where
  "msgSaveSucceeded =
     [CHR 0xE9, CHR 0x85, CHR 0x8D, CHR 0xE7, CHR 0xBD, CHR 0xAE, CHR 0xE6, CHR 0x96,
      CHR 0x87, CHR 0xE4, CHR 0xBB, CHR 0xB6, CHR 0xE4, CHR 0xBF, CHR 0x9D, CHR 0xE5,
      CHR 0xAD, CHR 0x98, CHR 0xE6, CHR 0x88, CHR 0x90, CHR 0xE5, CHR 0x8A, CHR 0x9F]"

definition msgSaveFailed :: string where
  "msgSaveFailed =
     [CHR 0xE9, CHR 0x85, CHR 0x8D, CHR 0xE7, CHR 0xBD, CHR 0xAE, CHR 0xE6, CHR 0x96,
      CHR 0x87, CHR 0xE4, CHR 0xBB, CHR 0xB6, CHR 0xE4, CHR 0xBF, CHR 0x9D, CHR 0xE5,
      CHR 0xAD, CHR 0x98, CHR 0xE5, CHR 0xA4, CHR 0xB1, CHR 0xE8, CHR 0xB4, CHR 0xA5]"

subsection \<open>Requests and their outcomes\<close>

text \<open>
  Why a promise of \<open>apiClient\<close> rejects: the transport failed, the status was not 2xx,
  or the body could not be decoded.
\<close>

datatype api_error = NetworkError | BadStatus nat | MalformedBody

datatype 'a outcome = Resolved 'a | Rejected api_error

text \<open>
  A call of an asynchronous handler runs to its first \<open>await\<close> (\<open>Pending\<close>, with the
  request already in the trace) or ends before it (\<open>Finished\<close>).
\<close>

datatype progress = Finished view_state | Pending view_state

text \<open>
  A \<open>string | null\<close> used as a condition is falsy when it is \<open>null\<close> and when it
  is the empty string. Both tests of \<open>selectedConfigName\<close> (lines 59 and 91) are
  written out below as a case on the option followed by a test for \<open>[]\<close>.
\<close>

subsection \<open>The notification\<close>

definition handleSnackbarOpen :: "string \<Rightarrow> severity \<Rightarrow> view_state \<Rightarrow> view_state" where
  "handleSnackbarOpen message sev st =
     st\<lparr> snackbarMessage := message, snackbarSeverity := sev, snackbarOpen := True \<rparr>"

definition handleSnackbarClose :: "string option \<Rightarrow> view_state \<Rightarrow> view_state" where
  "handleSnackbarClose reason st =
     (if reason = Some ''clickaway'' then st else st\<lparr> snackbarOpen := False \<rparr>)"

definition autoHideDuration :: nat where
  "autoHideDuration = 3000"

text \<open>
  Modelled from the spec: the timer of the \<open>Snackbar\<close> element, which belongs to the
  component library. The page hands it \<open>autoHideDuration\<close> and, as \<open>onClose\<close>,
  \<open>handleSnackbarClose\<close>; a notification that has been open for that many time units
  is dismissed by a call of \<open>onClose\<close> with the reason \<open>timeout\<close>. \<open>Snackbar_elapsed\<close>
  is that call, for a notification that has been open for \<open>t\<close> units.
\<close>

definition Snackbar_elapsed :: "nat \<Rightarrow> view_state \<Rightarrow> view_state" where
  "Snackbar_elapsed t st =
     (if snackbarOpen st \<and> autoHideDuration \<le> t
      then handleSnackbarClose (Some ''timeout'') st else st)"

subsection \<open>The name list loader\<close>

text \<open>
  The body of a resolved response is taken at the type of the cell it is stored in,
  \<open>string[]\<close>.
\<close>

definition fetchConfigNames_begin :: "string \<Rightarrow> view_state \<Rightarrow> view_state" where
  "fetchConfigNames_begin resourceType st =
     st\<lparr> loading := True,
         requests := requests st @ [GET (''/api/v1/panel/'' @ resourceType)] \<rparr>"

definition fetchConfigNames_settle :: "string list outcome \<Rightarrow> view_state \<Rightarrow> view_state" where
  "fetchConfigNames_settle response st =
     (case response of
        Resolved data \<Rightarrow>
          (let st1 = st\<lparr> configNames := data \<rparr>;
               st2 = (if length data > 0
                      then st1\<lparr> selectedConfigName := Some (data ! 0) \<rparr>
                      else st1\<lparr> selectedConfigName := None \<rparr>)
           in st2\<lparr> loading := False \<rparr>)
      | Rejected e \<Rightarrow>
          (let st1 = st\<lparr> configNames := [], selectedConfigName := None \<rparr>;
               st2 = handleSnackbarOpen msgNamesFailed Error st1
           in st2\<lparr> loading := False \<rparr>))"

definition fetchConfigNames :: "string \<Rightarrow> string list outcome \<Rightarrow> view_state \<Rightarrow> view_state" where
  "fetchConfigNames resourceType response st =
     fetchConfigNames_settle response (fetchConfigNames_begin resourceType st)"

subsection \<open>The content loader\<close>

definition fetchConfigContent_begin :: "string \<Rightarrow> string \<Rightarrow> view_state \<Rightarrow> view_state" where
  "fetchConfigContent_begin resourceType name st =
     st\<lparr> loading := True,
         requests := requests st @
           [GET (''/api/v1/client/'' @ String_slice 0 (- 1) resourceType
                 @ ''?name='' @ name)] \<rparr>"

definition fetchConfigContent_settle :: "json outcome \<Rightarrow> view_state \<Rightarrow> view_state" where
  "fetchConfigContent_settle response st =
     (case response of
        Resolved data \<Rightarrow>
          (st\<lparr> configContent := JSON_stringify data 2 \<rparr>)\<lparr> loading := False \<rparr>
      | Rejected e \<Rightarrow>
          (handleSnackbarOpen msgContentFailed Error (st\<lparr> configContent := [] \<rparr>))
            \<lparr> loading := False \<rparr>)"

definition fetchConfigContent ::
  "string \<Rightarrow> string \<Rightarrow> json outcome \<Rightarrow> view_state \<Rightarrow> view_state" where
  "fetchConfigContent resourceType name response st =
     fetchConfigContent_settle response (fetchConfigContent_begin resourceType name st)"

subsection \<open>Synchronous handlers\<close>

definition handleTabChange :: "nat \<Rightarrow> view_state \<Rightarrow> view_state" where
  "handleTabChange newValue st = st\<lparr> tabValue := newValue, selectedConfigName := None \<rparr>"

definition handleConfigNameClick :: "string \<Rightarrow> view_state \<Rightarrow> view_state" where
  "handleConfigNameClick name st = st\<lparr> selectedConfigName := Some name, isEditing := False \<rparr>"

subsection \<open>Saving\<close>

text \<open>
  \<open>JSON.parse\<close> belongs to the platform and is a parameter: \<open>None\<close> is the thrown
  \<open>SyntaxError\<close>. The argument \<open>{ content: JSON.parse(content) }\<close> is evaluated before
  \<open>apiClient.post\<close> is entered, so a parse failure reaches the \<open>catch\<close> block with
  nothing sent.
\<close>

definition handleSaveConfig_call ::
  "(string \<Rightarrow> json option) \<Rightarrow> string \<Rightarrow> view_state \<Rightarrow> progress" where
  "handleSaveConfig_call JSON_parse content st =
     (case selectedConfigName st of
        None \<Rightarrow> Finished st
      | Some name \<Rightarrow>
          if name = [] then Finished st
          else
            (let st1 = st\<lparr> loading := True \<rparr> in
             case JSON_parse content of
               None \<Rightarrow>
                 Finished ((handleSnackbarOpen msgSaveFailed Error st1)\<lparr> loading := False \<rparr>)
             | Some v \<Rightarrow>
                 Pending (st1\<lparr> requests := requests st1 @
                   [POST (''/api/resources/'' @ currentResourceType st @ ''/'' @ name)
                         (JObj [(''content'', v)])] \<rparr>)))"

definition handleSaveConfig_settle :: "json outcome \<Rightarrow> view_state \<Rightarrow> view_state" where
  "handleSaveConfig_settle response st =
     (case response of
        Resolved r \<Rightarrow>
          ((handleSnackbarOpen msgSaveSucceeded Success st)\<lparr> isEditing := False \<rparr>)
            \<lparr> loading := False \<rparr>
      | Rejected e \<Rightarrow>
          (handleSnackbarOpen msgSaveFailed Error st)\<lparr> loading := False \<rparr>)"

definition handleSaveConfig ::
  "(string \<Rightarrow> json option) \<Rightarrow> json outcome \<Rightarrow> string \<Rightarrow> view_state \<Rightarrow> view_state" where
  "handleSaveConfig JSON_parse response content st =
     (case handleSaveConfig_call JSON_parse content st of
        Finished st' \<Rightarrow> st'
      | Pending st' \<Rightarrow> handleSaveConfig_settle response st')"

subsection \<open>The two effects\<close>

text \<open>
  An effect runs after a render in which one of its dependencies differs from the
  render before (the reactivity rule of the specification, section 4.4). \<open>prev\<close> is the
  state of the previous render, \<open>st\<close> the state just rendered. The effects run in the
  order of their declaration; the first starts the name list loader, the second
  (lines 58 to 64) starts the content loader when the selection is neither null nor
  empty and clears the content otherwise.
\<close>

definition names_effect :: "view_state \<Rightarrow> view_state" where
  "names_effect st = fetchConfigNames_begin (currentResourceType st) st"

definition content_effect :: "view_state \<Rightarrow> view_state" where
  "content_effect st =
     (case selectedConfigName st of
        None \<Rightarrow> st\<lparr> configContent := [] \<rparr>
      | Some name \<Rightarrow>
          if name = [] then st\<lparr> configContent := [] \<rparr>
          else fetchConfigContent_begin (currentResourceType st) name st)"

definition run_effects :: "view_state \<Rightarrow> view_state \<Rightarrow> view_state" where
  "run_effects prev st =
     (let st1 = (if (tabValue st, currentResourceType st) = (tabValue prev, currentResourceType prev)
                 then st else names_effect st);
          st2 = (if (selectedConfigName st, currentResourceType st)
                      = (selectedConfigName prev, currentResourceType prev)
                 then st1 else content_effect st1)
      in st2)"

text \<open>
  The operations as the page performs them: the handler, then the render and the
  effects it sets off. \<open>loadNames\<close> is the name list loader from its request to the
  settled state, \<open>save\<close> the editor's save.
\<close>

definition loadNames :: "string \<Rightarrow> string list outcome \<Rightarrow> view_state \<Rightarrow> view_state" where
  "loadNames resourceType response st =
     (let st0 = fetchConfigNames_begin resourceType st
      in run_effects st0 (fetchConfigNames_settle response st0))"

definition save ::
  "(string \<Rightarrow> json option) \<Rightarrow> json outcome \<Rightarrow> string \<Rightarrow> view_state \<Rightarrow> view_state" where
  "save JSON_parse response content st =
     run_effects st (handleSaveConfig JSON_parse response content st)"

subsection \<open>Sample inputs\<close>

text \<open>
  A fragment of \<open>JSON.parse\<close> for the worked examples: it agrees with the platform's
  parser on the texts used there (\<open>{"a":1}\<close> and \<open>null\<close> parse, the lone brace \<open>{\<close> is
  a syntax error). The theorems themselves hold for every parser.
\<close>

definition JSON_parse_sample :: "string \<Rightarrow> json option" where
  "JSON_parse_sample s =
     (if s = ''{\"a\":1}'' then Some (JObj [(''a'', JNum (Finite False 1 1))])
      else if s = ''null'' then Some JNull
      else None)"

section \<open>Properties\<close>

subsection \<open>Helper facts\<close>

lemma String_slice_butlast: "String_slice 0 (- 1) s = butlast s"
  by (simp add: String_slice_def Let_def butlast_conv_take nat_diff_distrib max_def)













lemma replicate_unfold: "replicate (numeral n) c = c # replicate (numeral n - 1) c"
  by (simp add: numeral_eq_Suc)

lemmas evaluate =
  JSON_stringify_def Let_def formatDecimal_def significand_def QuoteJSONString_def
  quoteChar_def hexDigit_def replicate_unfold

lemma Number_toString_examples:
  "map Number_toString
     [Finite False 1 1, Finite True 12 2, Finite False 100 3, Finite True 0 0,
      Finite False 5 0, Finite False 123456 3, Finite False 1 (- 5), Finite False 1 (- 6),
      Finite False 15 (- 6), Finite False 12 21, Finite False 1 22, Finite False 12 22,
      Infinity True, NaN]
     = [''1'', ''-12'', ''100'', ''0'',
        ''0.5'', ''123.456'', ''0.000001'', ''1e-7'',
        ''1.5e-7'', ''120000000000000000000'', ''1e+21'', ''1.2e+21'',
        ''-Infinity'', ''NaN'']"
  by (simp add: evaluate)

lemma QuoteJSONString_example:
  "QuoteJSONString (''a\"b'' @ [CHR 0x5C, CHR 0x0A, CHR 0x09, CHR 0x01, CHR 0x1F] @ ''c'')
     = [CHR 0x22] @ ''a'' @ [CHR 0x5C, CHR 0x22] @ ''b'' @ [CHR 0x5C, CHR 0x5C]
       @ [CHR 0x5C] @ ''n'' @ [CHR 0x5C] @ ''t'' @ [CHR 0x5C] @ ''u0001''
       @ [CHR 0x5C] @ ''u001f'' @ ''c'' @ [CHR 0x22]"
  by (simp add: evaluate)



lemma run_effects_same_deps:
  "tabValue st = tabValue prev \<Longrightarrow> selectedConfigName st = selectedConfigName prev
     \<Longrightarrow> run_effects prev st = st"
  by (simp add: run_effects_def currentResourceType_def)

lemma save_eq_handleSaveConfig:
  "save JSON_parse response content st = handleSaveConfig JSON_parse response content st"
  unfolding save_def
  by (rule run_effects_same_deps)
     (auto simp: handleSaveConfig_def handleSaveConfig_call_def handleSaveConfig_settle_def
        handleSnackbarOpen_def Let_def split: option.splits outcome.splits)

lemma sample_state:
  "loadNames ''ClassPlans'' (Resolved [[]]) initial_state
     = initial_state\<lparr> configNames := [[]], selectedConfigName := Some [],
                      requests := [GET ''/api/v1/panel/ClassPlans''] \<rparr>"
  by (simp add: loadNames_def fetchConfigNames_begin_def fetchConfigNames_settle_def
        run_effects_def content_effect_def currentResourceType_def Let_def initial_state_def)

subsection \<open>The content loader\<close>

text \<open>
  C3: for every category and name, the content loader issues exactly one request, a GET
  to \<open>/api/v1/client/{singular(category)}?name={name}\<close>, where the \<open>slice(0, -1)\<close> of the
  code is the category string without its last character; for the five category keys
  this gives ClassPlan, TimeLayout, SubjectsSourc, DefaultSettingsSourc and PolicySourc.
\<close>

theorem loadContent_request_path:
  "requests (fetchConfigContent_begin category name st)
     = requests st @ [GET (''/api/v1/client/'' @ singular category @ ''?name='' @ name)]
   \<and> requests (fetchConfigContent category name response st)
     = requests st @ [GET (''/api/v1/client/'' @ singular category @ ''?name='' @ name)]
   \<and> String_slice 0 (- 1) category = singular category
   \<and> map (\<lambda>r. String_slice 0 (- 1) (key r)) resourceTypes
     = [''ClassPlan'', ''TimeLayout'', ''SubjectsSourc'', ''DefaultSettingsSourc'',
        ''PolicySourc'']"
  by (cases response)
     (simp_all add: fetchConfigContent_def fetchConfigContent_begin_def
        fetchConfigContent_settle_def handleSnackbarOpen_def String_slice_butlast
        singular_def resourceTypes_def)


subsection \<open>The name list loader\<close>

text \<open>
  C5: when the name list request is rejected, whatever the reason, the list of names
  becomes empty, the selection becomes null, the notification is opened with severity
  error and the fixed message, the loading flag is released, and the only request made
  is the one GET for the names: nothing is retried and no content is fetched.
\<close>

theorem loadNames_failure:
  "configNames (loadNames category (Rejected e) st) = []
   \<and> selectedConfigName (loadNames category (Rejected e) st) = None
   \<and> snackbarOpen (loadNames category (Rejected e) st)
   \<and> snackbarSeverity (loadNames category (Rejected e) st) = Error
   \<and> snackbarMessage (loadNames category (Rejected e) st) = msgNamesFailed
   \<and> \<not> loading (loadNames category (Rejected e) st)
   \<and> requests (loadNames category (Rejected e) st)
       = requests st @ [GET (''/api/v1/panel/'' @ category)]"
  by (simp add: loadNames_def fetchConfigNames_begin_def fetchConfigNames_settle_def
        handleSnackbarOpen_def run_effects_def content_effect_def currentResourceType_def
        Let_def)

text \<open>
  C2: when the name list request resolves with a list \<open>L\<close>, the list of names
  becomes \<open>L\<close> as returned. If \<open>L\<close> is not empty the selection becomes \<open>L[0]\<close>, and
  when \<open>L[0]\<close> is a non-empty string that differs from the selection before, the
  content loader is started for the active category and \<open>L[0]\<close>. If \<open>L\<close> is empty the
  selection becomes null and no content request is made; the edited content is
  cleared when a name was selected before. The content effect, which starts the loader
  or clears the content, runs only when the selection or the category changed.
\<close>

theorem loadNames_success:
  "configNames (loadNames category (Resolved L) st) = L
   \<and> (L \<noteq> [] \<longrightarrow> selectedConfigName (loadNames category (Resolved L) st) = Some (L ! 0))
   \<and> (L \<noteq> [] \<and> L ! 0 \<noteq> [] \<and> selectedConfigName st \<noteq> Some (L ! 0) \<longrightarrow>
        requests (loadNames category (Resolved L) st)
          = requests st @
            [GET (''/api/v1/panel/'' @ category),
             GET (''/api/v1/client/'' @ singular (currentResourceType st)
                  @ ''?name='' @ L ! 0)])
   \<and> (L = [] \<longrightarrow>
        selectedConfigName (loadNames category (Resolved L) st) = None
        \<and> requests (loadNames category (Resolved L) st)
            = requests st @ [GET (''/api/v1/panel/'' @ category)]
        \<and> (selectedConfigName st \<noteq> None \<longrightarrow>
             configContent (loadNames category (Resolved L) st) = []))"
  by (auto simp: loadNames_def fetchConfigNames_begin_def fetchConfigNames_settle_def
        run_effects_def content_effect_def fetchConfigContent_begin_def
        currentResourceType_def String_slice_butlast singular_def Let_def)

text \<open>
  At a list of two names from the initial state, and at an empty list while a name is
  selected.
\<close>

theorem loadNames_success_witness:
  "[''plan-a'', ''plan-b''] \<noteq> [] \<and> [''plan-a'', ''plan-b''] ! 0 \<noteq> []
   \<and> selectedConfigName initial_state \<noteq> Some ([''plan-a'', ''plan-b''] ! 0)
   \<and> configNames (loadNames ''ClassPlans'' (Resolved [''plan-a'', ''plan-b'']) initial_state)
       = [''plan-a'', ''plan-b'']
   \<and> selectedConfigName (loadNames ''ClassPlans'' (Resolved [''plan-a'', ''plan-b'']) initial_state)
       = Some ''plan-a''
   \<and> requests (loadNames ''ClassPlans'' (Resolved [''plan-a'', ''plan-b'']) initial_state)
       = [GET ''/api/v1/panel/ClassPlans'', GET ''/api/v1/client/ClassPlan?name=plan-a'']
   \<and> selectedConfigName
         (loadNames ''ClassPlans'' (Resolved [])
            (initial_state\<lparr> selectedConfigName := Some ''plan-a'', configContent := ''{}'' \<rparr>))
       = None
   \<and> configContent
         (loadNames ''ClassPlans'' (Resolved [])
            (initial_state\<lparr> selectedConfigName := Some ''plan-a'', configContent := ''{}'' \<rparr>))
       = []"
  using loadNames_success [of "''ClassPlans''" "[''plan-a'', ''plan-b'']" initial_state]
        loadNames_success [of "''ClassPlans''" "[]"
          "initial_state\<lparr> selectedConfigName := Some ''plan-a'', configContent := ''{}'' \<rparr>"]
  by (simp add: initial_state_def currentResourceType_def resourceTypes_def singular_def)

text \<open>
  The list \<open>[""]\<close> is not empty, its first entry becomes the selection, and no content
  request follows: the empty string is falsy at line 59. An empty list that arrives
  while nothing is selected leaves the text typed into the editor in place. A list
  whose first entry is already the selection (the answer to an overtaken request, say)
  changes no dependency of the content effect, and no content request follows.
\<close>

theorem loadNames_cascade_counterexample:
  "selectedConfigName (loadNames ''ClassPlans'' (Resolved [[]]) initial_state) = Some []
   \<and> requests (loadNames ''ClassPlans'' (Resolved [[]]) initial_state)
       = [GET ''/api/v1/panel/ClassPlans'']
   \<and> selectedConfigName
        (loadNames ''ClassPlans'' (Resolved []) (initial_state\<lparr> configContent := ''{}'' \<rparr>)) = None
   \<and> configContent
        (loadNames ''ClassPlans'' (Resolved []) (initial_state\<lparr> configContent := ''{}'' \<rparr>))
       = ''{}''
   \<and> requests
        (loadNames ''ClassPlans'' (Resolved [''plan-a''])
           (initial_state\<lparr> selectedConfigName := Some ''plan-a'' \<rparr>))
       = [GET ''/api/v1/panel/ClassPlans'']"
  by (simp add: loadNames_def fetchConfigNames_begin_def fetchConfigNames_settle_def
        run_effects_def content_effect_def currentResourceType_def Let_def initial_state_def)

subsection \<open>Saving\<close>

text \<open>
  C1: for every content string that parses to a JSON value \<open>v\<close> and every
  selected name \<open>X\<close> that is neither null nor the empty string, \<open>save\<close> issues exactly
  one request, a POST to \<open>/api/resources/{category}/X\<close> with body \<open>{"content": v}\<close>.
  If the POST resolves, \<open>isEditing\<close> becomes false and the success notification with
  its fixed message is opened; if it is rejected, the error notification is opened and
  \<open>isEditing\<close> keeps its value.
\<close>

theorem save_posts_parsed_content:
  "JSON_parse content = Some v \<Longrightarrow> selectedConfigName st = Some X \<Longrightarrow> X \<noteq> [] \<Longrightarrow>
     requests (save JSON_parse response content st)
       = requests st @ [POST (''/api/resources/'' @ currentResourceType st @ ''/'' @ X)
                             (JObj [(''content'', v)])]
     \<and> (\<forall>r. response = Resolved r \<longrightarrow>
           \<not> isEditing (save JSON_parse response content st)
           \<and> snackbarOpen (save JSON_parse response content st)
           \<and> snackbarSeverity (save JSON_parse response content st) = Success
           \<and> snackbarMessage (save JSON_parse response content st) = msgSaveSucceeded)
     \<and> (\<forall>e. response = Rejected e \<longrightarrow>
           isEditing (save JSON_parse response content st) = isEditing st
           \<and> snackbarOpen (save JSON_parse response content st)
           \<and> snackbarSeverity (save JSON_parse response content st) = Error
           \<and> snackbarMessage (save JSON_parse response content st) = msgSaveFailed)"
  by (auto simp: save_eq_handleSaveConfig handleSaveConfig_def handleSaveConfig_call_def
        handleSaveConfig_settle_def handleSnackbarOpen_def Let_def split: outcome.splits)

text \<open>
  The specification's example: \<open>{"a":1}\<close> saved under the name X in the first category,
  with a resolved and with a rejected POST.
\<close>

theorem save_posts_parsed_content_witness:
  "requests (save JSON_parse_sample (Resolved JNull) ''{\"a\":1}''
               (initial_state\<lparr> selectedConfigName := Some ''X'', isEditing := True \<rparr>))
     = [POST ''/api/resources/ClassPlans/X'' (JObj [(''content'', JObj [(''a'', JNum (Finite False 1 1))])])]
   \<and> \<not> isEditing (save JSON_parse_sample (Resolved JNull) ''{\"a\":1}''
               (initial_state\<lparr> selectedConfigName := Some ''X'', isEditing := True \<rparr>))
   \<and> isEditing (save JSON_parse_sample (Rejected (BadStatus 500)) ''{\"a\":1}''
               (initial_state\<lparr> selectedConfigName := Some ''X'', isEditing := True \<rparr>))
   \<and> snackbarSeverity (save JSON_parse_sample (Rejected (BadStatus 500)) ''{\"a\":1}''
               (initial_state\<lparr> selectedConfigName := Some ''X'', isEditing := True \<rparr>)) = Error"
  using save_posts_parsed_content [of JSON_parse_sample "''{\"a\":1}''" "JObj [(''a'', JNum (Finite False 1 1))]"
          "initial_state\<lparr> selectedConfigName := Some ''X'', isEditing := True \<rparr>" "''X''"
          "Resolved JNull"]
        save_posts_parsed_content [of JSON_parse_sample "''{\"a\":1}''" "JObj [(''a'', JNum (Finite False 1 1))]"
          "initial_state\<lparr> selectedConfigName := Some ''X'', isEditing := True \<rparr>" "''X''"
          "Rejected (BadStatus 500)"]
  by (simp add: JSON_parse_sample_def initial_state_def currentResourceType_def resourceTypes_def)

text \<open>
  With the empty string selected (a name the list endpoint can return), line 91 returns
  at once: nothing is posted and nothing is notified, although the name is not null and
  the content parses.
\<close>

theorem save_empty_name_counterexample:
  "selectedConfigName (loadNames ''ClassPlans'' (Resolved [[]]) initial_state) = Some []
   \<and> JSON_parse_sample ''{\"a\":1}'' = Some (JObj [(''a'', JNum (Finite False 1 1))])
   \<and> requests (save JSON_parse_sample (Resolved JNull) ''{\"a\":1}''
                 (loadNames ''ClassPlans'' (Resolved [[]]) initial_state))
       = [GET ''/api/v1/panel/ClassPlans'']
   \<and> \<not> snackbarOpen (save JSON_parse_sample (Resolved JNull) ''{\"a\":1}''
                 (loadNames ''ClassPlans'' (Resolved [[]]) initial_state))"
  unfolding sample_state
  by (simp add: save_eq_handleSaveConfig handleSaveConfig_def
        handleSaveConfig_call_def JSON_parse_sample_def initial_state_def)

text \<open>
  C6: for every content string that \<open>JSON.parse\<close> rejects and every selected
  name that is neither null nor the empty string, \<open>save\<close> ends before its \<open>await\<close> and
  posts nothing; its final state is the one the \<open>catch\<close> and \<open>finally\<close> blocks of a
  rejected POST produce from the state before the call: the same error notification is
  opened and \<open>isEditing\<close> keeps its value.
\<close>

theorem save_parse_failure:
  "JSON_parse content = None \<Longrightarrow> selectedConfigName st = Some X \<Longrightarrow> X \<noteq> [] \<Longrightarrow>
     requests (save JSON_parse response content st) = requests st
     \<and> handleSaveConfig_call JSON_parse content st
         = Finished (handleSaveConfig_settle (Rejected e) st)
     \<and> save JSON_parse response content st = handleSaveConfig_settle (Rejected e) st
     \<and> snackbarOpen (save JSON_parse response content st)
     \<and> snackbarSeverity (save JSON_parse response content st) = Error
     \<and> snackbarMessage (save JSON_parse response content st) = msgSaveFailed
     \<and> isEditing (save JSON_parse response content st) = isEditing st"
  by (simp add: save_eq_handleSaveConfig handleSaveConfig_def handleSaveConfig_call_def
        handleSaveConfig_settle_def handleSnackbarOpen_def Let_def)

text \<open>
  A lone opening brace saved under the name X.
\<close>

theorem save_parse_failure_witness:
  "requests (save JSON_parse_sample (Resolved JNull) ''{''
               (initial_state\<lparr> selectedConfigName := Some ''X'', isEditing := True \<rparr>)) = []
   \<and> snackbarSeverity (save JSON_parse_sample (Resolved JNull) ''{''
               (initial_state\<lparr> selectedConfigName := Some ''X'', isEditing := True \<rparr>)) = Error
   \<and> isEditing (save JSON_parse_sample (Resolved JNull) ''{''
               (initial_state\<lparr> selectedConfigName := Some ''X'', isEditing := True \<rparr>))"
  using save_parse_failure [of JSON_parse_sample "''{''"
          "initial_state\<lparr> selectedConfigName := Some ''X'', isEditing := True \<rparr>" "''X''"
          "Resolved JNull" NetworkError]
  by (simp add: JSON_parse_sample_def initial_state_def handleSaveConfig_settle_def
        handleSnackbarOpen_def)

text \<open>
  With the empty string selected, invalid content raises no notification at all.
\<close>

theorem save_invalid_json_empty_name_counterexample:
  "selectedConfigName (loadNames ''ClassPlans'' (Resolved [[]]) initial_state) = Some []
   \<and> JSON_parse_sample ''{'' = None
   \<and> \<not> snackbarOpen (save JSON_parse_sample (Resolved JNull) ''{''
                 (loadNames ''ClassPlans'' (Resolved [[]]) initial_state))"
  unfolding sample_state
  by (simp add: save_eq_handleSaveConfig handleSaveConfig_def
        handleSaveConfig_call_def JSON_parse_sample_def initial_state_def)

text \<open>
  C8: for every content string, \<open>save\<close> with a null selection ends at once with the
  state it was given: no request is added to the trace, the loading flag and every
  other field keep their values.
\<close>

theorem save_without_selection:
  "selectedConfigName st = None \<Longrightarrow>
     handleSaveConfig_call JSON_parse content st = Finished st
     \<and> save JSON_parse response content st = st"
  by (simp add: save_eq_handleSaveConfig handleSaveConfig_def handleSaveConfig_call_def)

text \<open>
  A save while the first name list request is still in flight.
\<close>

theorem save_without_selection_witness:
  "selectedConfigName (fetchConfigNames_begin ''ClassPlans'' initial_state) = None
   \<and> save JSON_parse_sample (Resolved JNull) ''{\"a\":1}''
         (fetchConfigNames_begin ''ClassPlans'' initial_state)
       = fetchConfigNames_begin ''ClassPlans'' initial_state"
  using save_without_selection [of "fetchConfigNames_begin ''ClassPlans'' initial_state"
          JSON_parse_sample "''{\"a\":1}''" "Resolved JNull"]
  by (simp add: fetchConfigNames_begin_def initial_state_def)

text \<open>
  C10: when a save fails, by a parse error or by a rejected POST, the tab index, the
  list of names, the selection, the edited content and \<open>isEditing\<close> all keep the values
  they had before the call, whatever the selection and the content.
\<close>

theorem save_failure_frame:
  "JSON_parse content = None \<or> response = Rejected e \<Longrightarrow>
     tabValue (save JSON_parse response content st) = tabValue st
     \<and> configNames (save JSON_parse response content st) = configNames st
     \<and> selectedConfigName (save JSON_parse response content st) = selectedConfigName st
     \<and> configContent (save JSON_parse response content st) = configContent st
     \<and> isEditing (save JSON_parse response content st) = isEditing st"
  by (auto simp: save_eq_handleSaveConfig handleSaveConfig_def handleSaveConfig_call_def
        handleSaveConfig_settle_def handleSnackbarOpen_def Let_def split: option.splits)

text \<open>
  A POST answered with status 500 while editing.
\<close>

theorem save_failure_frame_witness:
  "configContent (save JSON_parse_sample (Rejected (BadStatus 500)) ''{\"a\":1}''
        (initial_state\<lparr> selectedConfigName := Some ''X'', configContent := ''{\"a\":1}'',
                         isEditing := True \<rparr>)) = ''{\"a\":1}''
   \<and> isEditing (save JSON_parse_sample (Rejected (BadStatus 500)) ''{\"a\":1}''
        (initial_state\<lparr> selectedConfigName := Some ''X'', configContent := ''{\"a\":1}'',
                         isEditing := True \<rparr>))
   \<and> selectedConfigName (save JSON_parse_sample (Rejected (BadStatus 500)) ''{\"a\":1}''
        (initial_state\<lparr> selectedConfigName := Some ''X'', configContent := ''{\"a\":1}'',
                         isEditing := True \<rparr>)) = Some ''X''"
  using save_failure_frame [of JSON_parse_sample "''{\"a\":1}''" "Rejected (BadStatus 500)"
          "BadStatus 500"
          "initial_state\<lparr> selectedConfigName := Some ''X'', configContent := ''{\"a\":1}'',
                           isEditing := True \<rparr>"]
  by (simp add: initial_state_def)

subsection \<open>The loading flag\<close>

text \<open>
  C7: the name list handler and the content handler set the loading flag when they
  start and clear it when they settle, whether the request resolved or was rejected
  and whatever happened to the state in between. \<open>save\<close> does the same when the
  selected name is not empty: with content that parses it is suspended at its POST with
  the flag set, with content that does not parse it has ended with the flag cleared,
  and the flag is cleared after it settles. With the empty string selected, as with
  nothing selected, \<open>save\<close> returns at once and leaves the flag as it was. After
  \<open>loadNames\<close>, the handler together with the effects it sets off, the flag is set
  exactly when the list selected a new, non-empty first name and so started the
  content loader.
\<close>

theorem loading_bracket:
  "loading (fetchConfigNames_begin category st)
   \<and> \<not> loading (fetchConfigNames_settle r1 st1)
   \<and> \<not> loading (fetchConfigNames category r1 st)
   \<and> loading (fetchConfigContent_begin category name st)
   \<and> \<not> loading (fetchConfigContent_settle r2 st2)
   \<and> \<not> loading (fetchConfigContent category name r2 st)
   \<and> (selectedConfigName st = Some X \<and> X \<noteq> [] \<longrightarrow>
         (\<forall>v. JSON_parse content = Some v \<longrightarrow>
            (\<exists>s. handleSaveConfig_call JSON_parse content st = Pending s \<and> loading s))
         \<and> (JSON_parse content = None \<longrightarrow>
            (\<exists>s. handleSaveConfig_call JSON_parse content st = Finished s \<and> \<not> loading s))
         \<and> \<not> loading (handleSaveConfig JSON_parse r3 content st))
   \<and> \<not> loading (handleSaveConfig_settle r3 st3)
   \<and> (selectedConfigName st = Some [] \<or> selectedConfigName st = None \<longrightarrow>
         handleSaveConfig_call JSON_parse content st = Finished st
         \<and> handleSaveConfig JSON_parse r3 content st = st)
   \<and> (loading (loadNames category r1 st)
        \<longleftrightarrow> (\<exists>L. r1 = Resolved L \<and> L \<noteq> [] \<and> L ! 0 \<noteq> []
                 \<and> selectedConfigName st \<noteq> Some (L ! 0)))"
proof -
  have names: "\<not> loading (fetchConfigNames_settle r s)" for r s
    by (cases r) (simp_all add: fetchConfigNames_settle_def handleSnackbarOpen_def Let_def)
  have content: "\<not> loading (fetchConfigContent_settle r s)" for r s
    by (cases r) (simp_all add: fetchConfigContent_settle_def handleSnackbarOpen_def)
  have settle: "\<not> loading (handleSaveConfig_settle r s)" for r s
    by (cases r) (simp_all add: handleSaveConfig_settle_def handleSnackbarOpen_def)
  have call: "selectedConfigName st = Some X \<and> X \<noteq> [] \<longrightarrow>
         (\<forall>v. JSON_parse content = Some v \<longrightarrow>
            (\<exists>s. handleSaveConfig_call JSON_parse content st = Pending s \<and> loading s))
         \<and> (JSON_parse content = None \<longrightarrow>
            (\<exists>s. handleSaveConfig_call JSON_parse content st = Finished s \<and> \<not> loading s))
         \<and> \<not> loading (handleSaveConfig JSON_parse r3 content st)"
    by (cases "JSON_parse content")
       (auto simp: handleSaveConfig_def handleSaveConfig_call_def handleSnackbarOpen_def
          Let_def settle)
  have skip: "selectedConfigName st = Some [] \<or> selectedConfigName st = None \<longrightarrow>
         handleSaveConfig_call JSON_parse content st = Finished st
         \<and> handleSaveConfig JSON_parse r3 content st = st"
    by (auto simp: handleSaveConfig_def handleSaveConfig_call_def)
  have cascade: "loading (loadNames category r1 st)
        \<longleftrightarrow> (\<exists>L. r1 = Resolved L \<and> L \<noteq> [] \<and> L ! 0 \<noteq> []
                 \<and> selectedConfigName st \<noteq> Some (L ! 0))"
    by (cases r1)
       (auto simp: loadNames_def fetchConfigNames_begin_def fetchConfigNames_settle_def
          run_effects_def content_effect_def fetchConfigContent_begin_def
          handleSnackbarOpen_def currentResourceType_def Let_def)
  have loaders: "loading (fetchConfigNames_begin category st)
      \<and> \<not> loading (fetchConfigNames category r1 st)
      \<and> loading (fetchConfigContent_begin category name st)
      \<and> \<not> loading (fetchConfigContent category name r2 st)"
    by (simp add: names content fetchConfigNames_def fetchConfigContent_def
          fetchConfigNames_begin_def fetchConfigContent_begin_def)
  show ?thesis
    using names [of r1 st1] content [of r2 st2] settle [of r3 st3] call skip cascade loaders
    by blast
qed

text \<open>
  Under the name X, a save of \<open>{"a":1}\<close> is suspended at the POST with the flag set
  and a save of a lone brace has ended with the flag cleared; with the empty string
  selected the save returns the state it was given; a list of one name, loaded from the
  initial state, leaves the flag set.
\<close>

theorem loading_bracket_witness:
  "selectedConfigName (initial_state\<lparr> selectedConfigName := Some ''X'' \<rparr>) = Some ''X''
   \<and> ''X'' \<noteq> []
   \<and> JSON_parse_sample ''{\"a\":1}'' = Some (JObj [(''a'', JNum (Finite False 1 1))])
   \<and> JSON_parse_sample ''{'' = None
   \<and> (\<exists>s. handleSaveConfig_call JSON_parse_sample ''{\"a\":1}''
              (initial_state\<lparr> selectedConfigName := Some ''X'' \<rparr>) = Pending s
            \<and> loading s)
   \<and> (\<exists>s. handleSaveConfig_call JSON_parse_sample ''{''
              (initial_state\<lparr> selectedConfigName := Some ''X'' \<rparr>) = Finished s
            \<and> \<not> loading s)
   \<and> \<not> loading (handleSaveConfig JSON_parse_sample (Rejected NetworkError) ''{\"a\":1}''
         (initial_state\<lparr> selectedConfigName := Some ''X'' \<rparr>))
   \<and> handleSaveConfig JSON_parse_sample (Resolved JNull) ''{\"a\":1}''
         (initial_state\<lparr> selectedConfigName := Some [] \<rparr>)
       = initial_state\<lparr> selectedConfigName := Some [] \<rparr>
   \<and> loading (loadNames ''ClassPlans'' (Resolved [''plan-a'']) initial_state)"
proof -
  let ?x = "initial_state\<lparr> selectedConfigName := Some ''X'' \<rparr>"
  let ?e = "initial_state\<lparr> selectedConfigName := Some [] \<rparr>"
  have parses: "JSON_parse_sample ''{\"a\":1}'' = Some (JObj [(''a'', JNum (Finite False 1 1))])"
    and fails: "JSON_parse_sample ''{'' = None"
    by (simp_all add: JSON_parse_sample_def)
  have selected: "selectedConfigName ?x = Some ''X'' \<and> ''X'' \<noteq> []"
    and empty: "selectedConfigName ?e = Some [] \<or> selectedConfigName ?e = None"
    and fresh: "\<exists>L. Resolved [''plan-a''] = Resolved L \<and> L \<noteq> [] \<and> L ! 0 \<noteq> []
                  \<and> selectedConfigName initial_state \<noteq> Some (L ! 0)"
    by (simp_all add: initial_state_def)
  note good = loading_bracket [of "''ClassPlans''" initial_state "Resolved [''plan-a'']"
      initial_state "''X''" "Resolved JNull" initial_state "''X''" JSON_parse_sample
      "''{\"a\":1}''" "Rejected NetworkError" initial_state]
  note bad = loading_bracket [of "''ClassPlans''" ?x "Resolved [''plan-a'']"
      initial_state "''X''" "Resolved JNull" initial_state "''X''" JSON_parse_sample
      "''{''" "Rejected NetworkError" initial_state]
  note none = loading_bracket [of "''ClassPlans''" ?e "Resolved [''plan-a'']"
      initial_state "''X''" "Resolved JNull" initial_state "''X''" JSON_parse_sample
      "''{\"a\":1}''" "Resolved JNull" initial_state]
  have "\<exists>s. handleSaveConfig_call JSON_parse_sample ''{\"a\":1}'' ?x = Pending s \<and> loading s"
    and "\<not> loading (handleSaveConfig JSON_parse_sample (Rejected NetworkError) ''{\"a\":1}'' ?x)"
    using loading_bracket [of "''ClassPlans''" ?x "Resolved [''plan-a'']"
      initial_state "''X''" "Resolved JNull" initial_state "''X''" JSON_parse_sample
      "''{\"a\":1}''" "Rejected NetworkError" initial_state] selected parses
    by blast+
  moreover have "\<exists>s. handleSaveConfig_call JSON_parse_sample ''{'' ?x = Finished s \<and> \<not> loading s"
    using bad selected fails by blast
  moreover have "handleSaveConfig JSON_parse_sample (Resolved JNull) ''{\"a\":1}'' ?e = ?e"
    using none empty by blast
  moreover have "loading (loadNames ''ClassPlans'' (Resolved [''plan-a'']) initial_state)"
    using good fresh by blast
  ultimately show ?thesis
    using parses fails selected by blast
qed

text \<open>
  With the empty string selected, a name that is not null and that the list endpoint
  can return, \<open>save\<close> returns before line 92: for content that parses it ends at once
  in the state it was given, the flag never set and nothing pending. And after a
  name list that selects its first name the flag is set, by the content loader that
  the selection started.
\<close>

theorem save_skips_loading_counterexample:
  "selectedConfigName (loadNames ''ClassPlans'' (Resolved [[]]) initial_state) = Some []
   \<and> \<not> loading (loadNames ''ClassPlans'' (Resolved [[]]) initial_state)
   \<and> JSON_parse_sample ''{\"a\":1}'' = Some (JObj [(''a'', JNum (Finite False 1 1))])
   \<and> handleSaveConfig_call JSON_parse_sample ''{\"a\":1}''
         (loadNames ''ClassPlans'' (Resolved [[]]) initial_state)
       = Finished (loadNames ''ClassPlans'' (Resolved [[]]) initial_state)
   \<and> loading (loadNames ''ClassPlans'' (Resolved [''plan-a'']) initial_state)"
proof -
  have "loading (loadNames ''ClassPlans'' (Resolved [''plan-a'']) initial_state)"
    by (simp add: loadNames_def fetchConfigNames_begin_def fetchConfigNames_settle_def
          run_effects_def content_effect_def fetchConfigContent_begin_def
          currentResourceType_def Let_def initial_state_def)
  moreover have "JSON_parse_sample ''{\"a\":1}'' = Some (JObj [(''a'', JNum (Finite False 1 1))])"
    by (simp add: JSON_parse_sample_def)
  ultimately show ?thesis
    unfolding sample_state
    by (simp add: handleSaveConfig_call_def initial_state_def)
qed

subsection \<open>Dismissing the notification\<close>

text \<open>
  C9: a close request with the reason \<open>clickaway\<close> leaves the state as it is; a close
  request with any other reason, or with none, closes the notification and changes
  nothing else; the timer leaves the notification alone before 3000 time units have
  passed and closes it from then on.
\<close>

theorem snackbar_close:
  "handleSnackbarClose (Some ''clickaway'') st = st
   \<and> (reason \<noteq> Some ''clickaway'' \<longrightarrow>
        handleSnackbarClose reason st = st\<lparr> snackbarOpen := False \<rparr>)
   \<and> (t < 3000 \<longrightarrow> Snackbar_elapsed t st = st)
   \<and> (3000 \<le> t \<longrightarrow> \<not> snackbarOpen (Snackbar_elapsed t st))"
  by (simp add: handleSnackbarClose_def autoHideDuration_def Snackbar_elapsed_def)

text \<open>
  An open error notification: a clickaway, the close button, 2999 and 3000 time units.
\<close>

theorem snackbar_close_witness:
  "None \<noteq> Some ''clickaway''
   \<and> snackbarOpen (handleSnackbarClose (Some ''clickaway'')
       (handleSnackbarOpen msgSaveFailed Error initial_state))
   \<and> \<not> snackbarOpen (handleSnackbarClose None
       (handleSnackbarOpen msgSaveFailed Error initial_state))
   \<and> snackbarOpen (Snackbar_elapsed 2999 (handleSnackbarOpen msgSaveFailed Error initial_state))
   \<and> \<not> snackbarOpen (Snackbar_elapsed 3000 (handleSnackbarOpen msgSaveFailed Error initial_state))"
proof -
  let ?s = "handleSnackbarOpen msgSaveFailed Error initial_state"
  have opened: "snackbarOpen ?s"
    by (simp add: handleSnackbarOpen_def)
  have "handleSnackbarClose (Some ''clickaway'') ?s = ?s"
    using snackbar_close [of ?s None 2999] by (rule conjunct1)
  moreover have "handleSnackbarClose None ?s = ?s\<lparr> snackbarOpen := False \<rparr>"
    using snackbar_close [of ?s None 2999] by simp
  moreover have "Snackbar_elapsed 2999 ?s = ?s"
    using snackbar_close [of ?s None 2999] by simp
  moreover have "\<not> snackbarOpen (Snackbar_elapsed 3000 ?s)"
    using snackbar_close [of ?s None 3000] by simp
  ultimately show ?thesis
    using opened by simp
qed

end
